theory Spec2Isabelle
  imports Main
begin

section \<open>Python values at the driver's interface\<close>

text \<open>
  The driver \<^verbatim>\<open>Vector\<close> of \<^verbatim>\<open>gpsdio_vector_driver/core.py\<close> is embedded with explicit
  state passing. Exceptions are values: \<open>TypeError\<close> and \<open>ValueError\<close> are the two that the
  driver's own statements produce, \<open>FionaError\<close> stands for any exception raised inside the
  vector library.
\<close>

datatype error = TypeError | ValueError | FionaError

text \<open>The argument \<^verbatim>\<open>f\<close>: an instance of \<^verbatim>\<open>six.string_types\<close>, or any other object.\<close>

datatype pyarg = Str string | NonStr

text \<open>
  The argument \<^verbatim>\<open>fields\<close>, by the classes that \<^verbatim>\<open>__init__\<close> tests with
  \<^verbatim>\<open>isinstance\<close>: \<^verbatim>\<open>None\<close>, a string, a list or tuple (of definition strings), a
  \<^verbatim>\<open>dict\<close> or \<^verbatim>\<open>OrderedDict\<close> (field name to definition, as the docstring has it;
  the items are listed in the dictionary's iteration order, with unique keys), and
  \<open>FOther\<close> for an object of any other class (an integer, a set, ...).
\<close>

datatype fields_arg =
    FNone
  | FStr string
  | FSeq "string list"
  | FDict "(string \<times> string) list"
  | FOther

datatype crs_val = CrsStr string | CrsDict "(string \<times> string) list"

subsection \<open>String methods\<close>

text \<open>
  \<^verbatim>\<open>s.split(sep)\<close> for a separator of one character: every occurrence splits, and the
  result always has at least one element (\<^verbatim>\<open>''.split(',') == ['']\<close>).
\<close>

fun split_acc :: "char \<Rightarrow> string \<Rightarrow> string \<Rightarrow> string list" where
  "split_acc sep acc [] = [acc]"
| "split_acc sep acc (c # cs) =
     (if c = sep then acc # split_acc sep [] cs else split_acc sep (acc @ [c]) cs)"

definition py_split :: "char \<Rightarrow> string \<Rightarrow> string list" where
  "py_split sep s = split_acc sep [] s"

text \<open>\<^verbatim>\<open>s.split(sep, 1)\<close>: at most one split, at the first occurrence.\<close>

definition py_split1 :: "char \<Rightarrow> string \<Rightarrow> string list" where
  "py_split1 sep s =
     (if sep \<in> set s
      then [takeWhile (\<lambda>c. c \<noteq> sep) s, tl (dropWhile (\<lambda>c. c \<noteq> sep) s)]
      else [s])"

text \<open>
  The tuple assignment \<^verbatim>\<open>name, definition = xs\<close>: it raises \<^verbatim>\<open>ValueError\<close> unless
  \<^verbatim>\<open>xs\<close> has exactly two elements.
\<close>

fun unpack2 :: "'a list \<Rightarrow> error + 'a \<times> 'a" where
  "unpack2 [a, b] = Inr (a, b)"
| "unpack2 _ = Inl ValueError"

text \<open>\<^verbatim>\<open>','.join(xs)\<close>, used to write a list of tokens as one string.\<close>

fun py_join :: "char \<Rightarrow> string list \<Rightarrow> string" where
  "py_join sep [] = []"
| "py_join sep [x] = x"
| "py_join sep (x # y # ys) = x @ sep # py_join sep (y # ys)"

subsection \<open>Ordered dictionaries\<close>

text \<open>
  An \<^verbatim>\<open>OrderedDict\<close> is a list of items in insertion order. \<^verbatim>\<open>d[k] = v\<close> replaces the
  value in place when the key exists and appends the item otherwise.
\<close>

type_synonym schema = "(string \<times> string) list"

fun od_setitem :: "('k \<times> 'a) list \<Rightarrow> 'k \<Rightarrow> 'a \<Rightarrow> ('k \<times> 'a) list" where
  "od_setitem [] k v = [(k, v)]"
| "od_setitem ((k', v') # kvs) k v =
     (if k' = k then (k, v) # kvs else (k', v') # od_setitem kvs k v)"

text \<open>\<^verbatim>\<open>d.update(**items)\<close>: one assignment per item, in the order of the items.\<close>

fun od_update :: "('k \<times> 'a) list \<Rightarrow> ('k \<times> 'a) list \<Rightarrow> ('k \<times> 'a) list" where
  "od_update d [] = d"
| "od_update d ((k, v) # items) = od_update (od_setitem d k v) items"

section \<open>The schema of the point file\<close>

definition default_fields :: schema where
  "default_fields =
     [(''mmsi'', ''int:30''),
      (''timestamp'', ''str:40''),
      (''course'', ''float:12.1''),
      (''speed'', ''float:10.1''),
      (''heading'', ''int:7'')]"

text \<open>The loop \<^verbatim>\<open>for d in fields\<close> of \<^verbatim>\<open>__init__\<close> (lines 92 to 94).\<close>

fun set_definitions :: "schema \<Rightarrow> string list \<Rightarrow> error + schema" where
  "set_definitions properties [] = Inr properties"
| "set_definitions properties (d # ds) =
     (case unpack2 (py_split1 CHR '':'' d) of
        Inl e \<Rightarrow> Inl e
      | Inr (name, definition) \<Rightarrow> set_definitions (od_setitem properties name definition) ds)"

text \<open>
  Lines 86 to 94 of \<^verbatim>\<open>__init__\<close>: the copy of the defaults, the split of a string into a
  list, and the \<^verbatim>\<open>if\<close>/\<^verbatim>\<open>elif\<close> over the class of \<^verbatim>\<open>fields\<close>, which has no
  \<^verbatim>\<open>else\<close> branch.
\<close>

definition resolve_fields :: "fields_arg \<Rightarrow> error + schema" where
  "resolve_fields flds =
     (let properties = default_fields;
          fields' = (case flds of FStr s \<Rightarrow> FSeq (py_split CHR '','' s) | _ \<Rightarrow> flds)
      in case fields' of
           FDict items \<Rightarrow> Inr (od_update properties items)
         | FSeq ds \<Rightarrow> set_definitions properties ds
         | _ \<Rightarrow> Inr properties)"

section \<open>The vector library\<close>

text \<open>
  What \<^verbatim>\<open>fiona\<close> is given: the keyword arguments \<^verbatim>\<open>meta\<close> of \<^verbatim>\<open>fio.open\<close> and the
  features written. A message value is of an arbitrary type \<open>'v\<close>; Python's \<^verbatim>\<open>None\<close> is
  \<open>None\<close> of \<open>'v option\<close>.
\<close>

record meta =
  schema_properties :: schema
  schema_geometry :: string
  crs :: crs_val
  driver :: string

type_synonym 'v coord = "'v option \<times> 'v option"

datatype 'v geom = Point "'v coord" | LineString "'v coord list"

record 'v feature =
  geometry :: "'v geom"
  properties :: "(string \<times> 'v option) list"

text \<open>
  The library's effects are a trace of the calls that succeeded, each with the path of
  the collection it acts on. Whether a call fails is decided by the library, a parameter
  \<open>fio\<close> of the model: \<open>fio tr ev\<close> holds when the call \<open>ev\<close>, made after the trace
  \<open>tr\<close>, raises. A call that raises leaves no event.
\<close>

datatype 'v event =
    Opened string string meta
  | Wrote string "'v feature"
  | Closed string

type_synonym 'v fio = "'v event list \<Rightarrow> 'v event \<Rightarrow> bool"

datatype outcome = Returned | Raised error

definition fio_call :: "'v fio \<Rightarrow> 'v event \<Rightarrow> 'v event list \<Rightarrow> outcome \<times> 'v event list" where
  "fio_call fio ev tr = (if fio tr ev then (Raised FionaError, tr) else (Returned, tr @ [ev]))"

text \<open>
  An open collection: its path and the \<^verbatim>\<open>meta\<close> it reports, which for a collection
  opened for writing is the one it was opened with.
\<close>

record stream_obj =
  s_path :: string
  s_meta :: meta

definition fio_open ::
  "'v fio \<Rightarrow> string \<Rightarrow> string \<Rightarrow> meta \<Rightarrow> 'v event list \<Rightarrow> (error + stream_obj) \<times> 'v event list" where
  "fio_open fio path mode m tr =
     (case fio_call fio (Opened path mode m) tr of
        (Raised e, tr') \<Rightarrow> (Inl e, tr')
      | (Returned, tr') \<Rightarrow> (Inr \<lparr>s_path = path, s_meta = m\<rparr>, tr'))"

definition stream_write ::
  "'v fio \<Rightarrow> stream_obj \<Rightarrow> 'v feature \<Rightarrow> 'v event list \<Rightarrow> outcome \<times> 'v event list" where
  "stream_write fio s ft tr = fio_call fio (Wrote (s_path s) ft) tr"

definition stream_close :: "'v fio \<Rightarrow> stream_obj \<Rightarrow> 'v event list \<Rightarrow> outcome \<times> 'v event list" where
  "stream_close fio s tr = fio_call fio (Closed (s_path s)) tr"

section \<open>The driver\<close>

text \<open>
  The instance: the stream kept by \<^verbatim>\<open>BaseDriver.__init__\<close> and the three attributes
  \<^verbatim>\<open>_line_coords\<close>, \<^verbatim>\<open>_line\<close> and \<^verbatim>\<open>_line_meta\<close>.
\<close>

record 'v vector =
  stream :: stream_obj
  line_coords :: "'v coord list"
  line :: "string option"
  line_meta :: meta

text \<open>
  \<^verbatim>\<open>__init__\<close>. The calls to the logger have no effect on the instance or on the
  library and are left out. The result is the exception or the new instance, with the
  trace.
\<close>

definition Vector_init ::
  "'v fio \<Rightarrow> pyarg \<Rightarrow> string \<Rightarrow> string \<Rightarrow> string option \<Rightarrow> crs_val \<Rightarrow> fields_arg \<Rightarrow>
   'v event list \<Rightarrow> (error + 'v vector) \<times> 'v event list" where
  "Vector_init fio f mode drv ln c flds tr =
     (case f of
        NonStr \<Rightarrow> (Inl TypeError, tr)
      | Str path \<Rightarrow>
          (case resolve_fields flds of
             Inl e \<Rightarrow> (Inl e, tr)
           | Inr props \<Rightarrow>
               (let m = \<lparr>schema_properties = props, schema_geometry = ''Point'',
                         crs = c, driver = drv\<rparr>
                in case fio_open fio path mode m tr of
                     (Inl e, tr') \<Rightarrow> (Inl e, tr')
                   | (Inr s, tr') \<Rightarrow>
                       (Inr \<lparr>stream = s, line_coords = [], line = ln,
                             line_meta = m\<lparr>schema_properties := [],
                                             schema_geometry := ''LineString''\<rparr>\<rparr>,
                        tr'))))"

text \<open>\<^verbatim>\<open>msg.get(k)\<close>: \<^verbatim>\<open>None\<close> for a missing key and for a key bound to \<^verbatim>\<open>None\<close>.\<close>

type_synonym 'v msg = "string \<Rightarrow> 'v option option"

definition msg_get :: "'v msg \<Rightarrow> string \<Rightarrow> 'v option" where
  "msg_get msg k = (case msg k of None \<Rightarrow> None | Some v \<Rightarrow> v)"

text \<open>The truth value of \<^verbatim>\<open>self._line\<close>: \<^verbatim>\<open>None\<close> and the empty string are false.\<close>

definition truthy :: "string option \<Rightarrow> bool" where
  "truthy ln = (case ln of None \<Rightarrow> False | Some s \<Rightarrow> s \<noteq> [])"

definition point_feature :: "stream_obj \<Rightarrow> 'v msg \<Rightarrow> 'v feature" where
  "point_feature s msg =
     \<lparr>geometry = Point (msg_get msg ''lon'', msg_get msg ''lat''),
      properties = map (\<lambda>f. (f, msg_get msg f)) (map fst (schema_properties (s_meta s)))\<rparr>"

text \<open>
  \<^verbatim>\<open>write\<close>. An exception of \<^verbatim>\<open>self.stream.write\<close> leaves the method before the
  coordinates are appended.
\<close>

definition Vector_write ::
  "'v fio \<Rightarrow> 'v vector \<Rightarrow> 'v msg \<Rightarrow> 'v event list \<Rightarrow> outcome \<times> 'v vector \<times> 'v event list" where
  "Vector_write fio self msg tr =
     (let x = msg_get msg ''lon''; y = msg_get msg ''lat'' in
      case (if x \<noteq> None \<and> y \<noteq> None
            then stream_write fio (stream self) (point_feature (stream self) msg) tr
            else (Returned, tr)) of
        (Raised e, tr') \<Rightarrow> (Raised e, self, tr')
      | (Returned, tr') \<Rightarrow>
          (Returned,
           (if truthy (line self)
            then self\<lparr>line_coords := line_coords self @ [(x, y)]\<rparr> else self),
           tr'))"

definition line_feature :: "'v coord list \<Rightarrow> 'v feature" where
  "line_feature cs = \<lparr>geometry = LineString cs, properties = []\<rparr>"

text \<open>
  The \<^verbatim>\<open>with\<close> statement of \<^verbatim>\<open>close\<close>: the collection is opened, the feature is
  written, and the collection is closed on the way out, also when the write raised; the
  exception of the write is then raised again, unless closing raised one itself.
\<close>

definition write_line :: "'v fio \<Rightarrow> 'v vector \<Rightarrow> 'v event list \<Rightarrow> outcome \<times> 'v event list" where
  "write_line fio self tr =
     (case fio_open fio (the (line self)) ''w'' (line_meta self) tr of
        (Inl e, tr1) \<Rightarrow> (Raised e, tr1)
      | (Inr dst, tr1) \<Rightarrow>
          (case stream_write fio dst (line_feature (line_coords self)) tr1 of
             (Raised e, tr2) \<Rightarrow>
               (case stream_close fio dst tr2 of
                  (Raised e', tr3) \<Rightarrow> (Raised e', tr3)
                | (Returned, tr3) \<Rightarrow> (Raised e, tr3))
           | (Returned, tr2) \<Rightarrow> stream_close fio dst tr2))"

text \<open>\<^verbatim>\<open>close\<close>. The accumulator is reset by the last statement only.\<close>

definition Vector_close ::
  "'v fio \<Rightarrow> 'v vector \<Rightarrow> 'v event list \<Rightarrow> outcome \<times> 'v vector \<times> 'v event list" where
  "Vector_close fio self tr =
     (case stream_close fio (stream self) tr of
        (Raised e, tr1) \<Rightarrow> (Raised e, self, tr1)
      | (Returned, tr1) \<Rightarrow>
          (case (if truthy (line self) then write_line fio self tr1 else (Returned, tr1)) of
             (Raised e, tr2) \<Rightarrow> (Raised e, self, tr2)
           | (Returned, tr2) \<Rightarrow> (Returned, self\<lparr>line_coords := []\<rparr>, tr2)))"


section \<open>Notions and inputs of the statements\<close>

text \<open>
  The token \<^verbatim>\<open>name:definition\<close> that the list and string syntaxes of \<^verbatim>\<open>fields\<close> use for
  one override.
\<close>

definition token :: "string \<times> string \<Rightarrow> string" where
  "token p = fst p @ CHR '':'' # snd p"

text \<open>Two libraries: one in which no call fails, one in which writing to a given path fails.\<close>

definition fio_ok :: "'v fio" where
  "fio_ok tr ev = False"

definition fio_write_fails :: "string \<Rightarrow> 'v fio" where
  "fio_write_fails p tr ev = (case ev of Wrote q ft \<Rightarrow> q = p | _ \<Rightarrow> False)"

text \<open>
  The instance that \<^verbatim>\<open>__init__\<close> builds for \<^verbatim>\<open>Vector('out.shp', line=ln)\<close> with the
  defaults of the other parameters, holding the coordinates \<open>cs\<close>; a message with a
  position only, and the point feature written for it under the default schema.
\<close>

definition ex_meta :: meta where
  "ex_meta = \<lparr>schema_properties = default_fields, schema_geometry = ''Point'',
              crs = CrsStr ''EPSG:4326'', driver = ''ESRI Shapefile''\<rparr>"

definition ex_vector :: "string option \<Rightarrow> int coord list \<Rightarrow> int vector" where
  "ex_vector ln cs =
     \<lparr>stream = \<lparr>s_path = ''out.shp'', s_meta = ex_meta\<rparr>,
      line_coords = cs, line = ln,
      line_meta = ex_meta\<lparr>schema_properties := [], schema_geometry := ''LineString''\<rparr>\<rparr>"

definition ex_msg :: "int \<Rightarrow> int \<Rightarrow> int msg" where
  "ex_msg x y = [''lon'' \<mapsto> Some x, ''lat'' \<mapsto> Some y]"

definition ex_point :: "int \<Rightarrow> int \<Rightarrow> int feature" where
  "ex_point x y =
     \<lparr>geometry = Point (Some x, Some y),
      properties = [(''mmsi'', None), (''timestamp'', None), (''course'', None),
                    (''speed'', None), (''heading'', None)]\<rparr>"

section \<open>Properties of the operations\<close>

subsection \<open>Assignment to an ordered dictionary\<close>

lemma od_setitem_keys:
  "map fst (od_setitem d k v) = (if k \<in> set (map fst d) then map fst d else map fst d @ [k])"
  by (induction d k v rule: od_setitem.induct) auto

lemma od_setitem_map_of: "map_of (od_setitem d k v) = (map_of d)(k \<mapsto> v)"
  by (induction d k v rule: od_setitem.induct) auto

lemma od_update_keys:
  "distinct (map fst items) \<Longrightarrow>
   map fst (od_update d items) =
     map fst d @ filter (\<lambda>k. k \<notin> set (map fst d)) (map fst items)"
proof (induction items arbitrary: d)
  case Nil
  then show ?case by simp
next
  case (Cons kv items)
  obtain k v where kv: "kv = (k, v)" by (cases kv)
  from Cons.prems kv have dist: "distinct (map fst items)" and notin: "k \<notin> set (map fst items)"
    by auto
  have ih: "map fst (od_update (od_setitem d k v) items) =
      map fst (od_setitem d k v) @
      filter (\<lambda>x. x \<notin> set (map fst (od_setitem d k v))) (map fst items)"
    using Cons.IH [OF dist] .
  show ?case
  proof (cases "k \<in> set (map fst d)")
    case True
    then show ?thesis using ih kv by (simp add: od_setitem_keys)
  next
    case False
    have "filter (\<lambda>x. x \<notin> set (map fst d @ [k])) (map fst items) =
          filter (\<lambda>x. x \<notin> set (map fst d)) (map fst items)"
      using notin by (intro filter_cong) auto
    then show ?thesis using ih kv False by (simp add: od_setitem_keys)
  qed
qed

lemma od_update_map_of:
  "distinct (map fst items) \<Longrightarrow> map_of (od_update d items) = map_of d ++ map_of items"
proof (induction items arbitrary: d)
  case Nil
  then show ?case by simp
next
  case (Cons kv items)
  obtain k v where kv: "kv = (k, v)" by (cases kv)
  from Cons.prems kv have dist: "distinct (map fst items)" and notin: "k \<notin> set (map fst items)"
    by auto
  have "map_of (od_update (od_setitem d k v) items) = map_of (od_setitem d k v) ++ map_of items"
    using Cons.IH [OF dist] .
  also have "\<dots> = (map_of d)(k \<mapsto> v) ++ map_of items"
    by (simp only: od_setitem_map_of)
  also have "\<dots> = map_of d ++ map_of ((k, v) # items)"
  proof
    fix x
    have none: "map_of items k = None"
      using notin by (simp add: map_of_eq_None_iff)
    show "((map_of d)(k \<mapsto> v) ++ map_of items) x = (map_of d ++ map_of ((k, v) # items)) x"
    proof (cases "x = k")
      case True
      then show ?thesis using none by (simp add: map_add_def)
    next
      case False
      then show ?thesis by (simp add: map_add_def split: option.splits)
    qed
  qed
  finally show ?case unfolding kv od_update.simps .
qed

lemma od_setitem_distinct: "distinct (map fst d) \<Longrightarrow> distinct (map fst (od_setitem d k v))"
  by (simp add: od_setitem_keys)

lemma od_update_distinct: "distinct (map fst d) \<Longrightarrow> distinct (map fst (od_update d items))"
  by (induction d items rule: od_update.induct) (auto simp: od_setitem_distinct)

subsection \<open>Splitting and parsing definition strings\<close>

lemma split_acc_token:
  "sep \<notin> set t \<Longrightarrow> split_acc sep acc (t @ rest) = split_acc sep (acc @ t) rest"
  by (induction t arbitrary: acc) auto

lemma split_acc_join:
  "toks \<noteq> [] \<Longrightarrow> \<forall>t \<in> set toks. sep \<notin> set t \<Longrightarrow>
   split_acc sep acc (py_join sep toks) = (acc @ hd toks) # tl toks"
proof (induction sep toks arbitrary: acc rule: py_join.induct)
  case (1 sep)
  then show ?case by simp
next
  case (2 sep x)
  then show ?case using split_acc_token [of sep x acc "[]"] by simp
next
  case (3 sep x y ys)
  have "split_acc sep acc (x @ sep # py_join sep (y # ys)) =
        split_acc sep (acc @ x) (sep # py_join sep (y # ys))"
    using "3.prems" by (intro split_acc_token) simp
  also have "\<dots> = (acc @ x) # split_acc sep [] (py_join sep (y # ys))" by simp
  also have "split_acc sep [] (py_join sep (y # ys)) = y # ys"
    using "3.IH" [of "[]"] "3.prems" by simp
  finally show ?case by simp
qed

lemma py_split_join:
  "toks \<noteq> [] \<Longrightarrow> \<forall>t \<in> set toks. sep \<notin> set t \<Longrightarrow> py_split sep (py_join sep toks) = toks"
  by (simp add: py_split_def split_acc_join)

lemma py_split1_token:
  "sep \<notin> set n \<Longrightarrow> py_split1 sep (n @ sep # d) = [n, d]"
proof -
  assume n: "sep \<notin> set n"
  then have all: "\<forall>x \<in> set n. x \<noteq> sep" by auto
  have tw: "takeWhile (\<lambda>c. c \<noteq> sep) (n @ sep # d) = n"
    using all by (simp add: takeWhile_tail)
  have "dropWhile (\<lambda>c. c \<noteq> sep) n = []"
    using all by (simp add: dropWhile_eq_Nil_conv)
  then have dw: "dropWhile (\<lambda>c. c \<noteq> sep) (n @ sep # d) = sep # d"
    by (simp add: dropWhile_append3)
  show ?thesis unfolding py_split1_def using tw dw by simp
qed

lemma unpack2_split1:
  "unpack2 (py_split1 sep d) =
     (if sep \<in> set d
      then Inr (takeWhile (\<lambda>c. c \<noteq> sep) d, tl (dropWhile (\<lambda>c. c \<noteq> sep) d))
      else Inl ValueError)"
  by (simp add: py_split1_def)

lemma set_definitions_tokens:
  "\<forall>p \<in> set pairs. CHR '':'' \<notin> set (fst p) \<Longrightarrow>
   set_definitions d (map token pairs) = Inr (od_update d pairs)"
proof (induction pairs arbitrary: d)
  case Nil
  then show ?case by simp
next
  case (Cons p pairs)
  obtain n df where p: "p = (n, df)" by (cases p)
  with Cons.prems have "CHR '':'' \<notin> set n" by simp
  then have "py_split1 CHR '':'' (token p) = [n, df]"
    using p by (simp add: token_def py_split1_token)
  then show ?case using Cons p by simp
qed

lemma set_definitions_malformed:
  "d \<in> set ds \<Longrightarrow> CHR '':'' \<notin> set d \<Longrightarrow> set_definitions props ds = Inl ValueError"
proof (induction ds arbitrary: props)
  case Nil
  then show ?case by simp
next
  case (Cons a ds)
  show ?case
  proof (cases "CHR '':'' \<in> set a")
    case True
    with Cons.prems have "d \<in> set ds" by auto
    then show ?thesis using Cons.IH Cons.prems(2) True by (simp add: unpack2_split1)
  next
    case False
    then show ?thesis by (simp add: unpack2_split1)
  qed
qed

subsection \<open>The instance after construction, and keys that a write does not read\<close>

lemma Vector_init_stream:
  assumes "Vector_init fio (Str path) mode drv ln c flds tr0 = (Inr self0, tr1)"
      and "resolve_fields flds = Inr props"
  shows "s_path (stream self0) = path"
    and "schema_properties (s_meta (stream self0)) = props"
    and "line self0 = ln"
  using assms
  by (auto simp: Vector_init_def fio_open_def fio_call_def Let_def split: if_splits)

lemma point_feature_upd_other:
  assumes "k \<notin> set (map fst (schema_properties (s_meta s)))" and "k \<noteq> ''lon''" and "k \<noteq> ''lat''"
  shows "point_feature s (msg(k := v)) = point_feature s msg"
proof -
  have "map (\<lambda>f. (f, msg_get (msg(k := v)) f)) (map fst (schema_properties (s_meta s))) =
        map (\<lambda>f. (f, msg_get msg f)) (map fst (schema_properties (s_meta s)))"
    using assms(1) by (intro map_cong) (auto simp: msg_get_def)
  then show ?thesis
    using assms(2,3) by (simp add: point_feature_def msg_get_def)
qed

lemma Vector_write_upd_other:
  assumes "k \<notin> set (map fst (schema_properties (s_meta (stream self))))"
      and "k \<noteq> ''lon''" and "k \<noteq> ''lat''"
  shows "Vector_write fio self (msg(k := v)) tr = Vector_write fio self msg tr"
proof -
  have lon: "msg_get (msg(k := v)) ''lon'' = msg_get msg ''lon''"
    using assms(2) by (simp add: msg_get_def)
  have lat: "msg_get (msg(k := v)) ''lat'' = msg_get msg ''lat''"
    using assms(3) by (simp add: msg_get_def)
  show ?thesis
    unfolding Vector_write_def lon lat point_feature_upd_other [OF assms] ..
qed

section \<open>Resolution of the field schema\<close>

text \<open>
  Claim C9. With \<^verbatim>\<open>fields=None\<close>, which is also the default of the parameter when the
  option is absent, the schema is exactly the five default fields \<^verbatim>\<open>mmsi\<close>,
  \<^verbatim>\<open>timestamp\<close>, \<^verbatim>\<open>course\<close>, \<^verbatim>\<open>speed\<close>, \<^verbatim>\<open>heading\<close> with their default
  definitions, in that order, nothing added or removed: the resolution returns them, and
  the point collection is opened with them.
\<close>

theorem resolve_fields_none:
  "resolve_fields FNone =
     Inr [(''mmsi'', ''int:30''), (''timestamp'', ''str:40''), (''course'', ''float:12.1''),
          (''speed'', ''float:10.1''), (''heading'', ''int:7'')]
   \<and> Vector_init fio (Str path) mode drv ln c FNone tr =
       (let m = \<lparr>schema_properties =
                   [(''mmsi'', ''int:30''), (''timestamp'', ''str:40''),
                    (''course'', ''float:12.1''), (''speed'', ''float:10.1''),
                    (''heading'', ''int:7'')],
                 schema_geometry = ''Point'', crs = c, driver = drv\<rparr>
        in if fio tr (Opened path mode m) then (Inl FionaError, tr)
           else (Inr \<lparr>stream = \<lparr>s_path = path, s_meta = m\<rparr>, line_coords = [], line = ln,
                      line_meta = m\<lparr>schema_properties := [],
                                      schema_geometry := ''LineString''\<rparr>\<rparr>,
                 tr @ [Opened path mode m]))"
  by (simp add: resolve_fields_def default_fields_def Vector_init_def fio_open_def
      fio_call_def Let_def)

text \<open>
  Claim C8. For a mapping passed as \<^verbatim>\<open>fields\<close> (its keys are unique), the schema is the
  defaults updated with the mapping: looked up by key, the caller's values win and the
  other defaults stay; the keys are the default keys in their default order, overridden or
  not, followed by the keys new to the defaults; and no key occurs twice.
\<close>

theorem resolve_fields_dict:
  assumes "distinct (map fst items)"
  shows "resolve_fields (FDict items) = Inr (od_update default_fields items) \<and>
         map_of (od_update default_fields items) = map_of default_fields ++ map_of items \<and>
         map fst (od_update default_fields items) =
           map fst default_fields @
           filter (\<lambda>k. k \<notin> set (map fst default_fields)) (map fst items) \<and>
         distinct (map fst (od_update default_fields items))"
proof -
  have "distinct (map fst default_fields)"
    by (simp add: default_fields_def)
  then have "distinct (map fst (od_update default_fields items))"
    by (rule od_update_distinct)
  then show ?thesis
    using od_update_map_of [OF assms, of default_fields]
      od_update_keys [OF assms, of default_fields]
    by (simp add: resolve_fields_def)
qed

theorem resolve_fields_dict_witness:
  "resolve_fields (FDict [(''draught'', ''float:5.1''), (''heading'', ''int:3'')]) =
     Inr [(''mmsi'', ''int:30''), (''timestamp'', ''str:40''), (''course'', ''float:12.1''),
          (''speed'', ''float:10.1''), (''heading'', ''int:3''), (''draught'', ''float:5.1'')]"
  using resolve_fields_dict [of "[(''draught'', ''float:5.1''), (''heading'', ''int:3'')]"]
  by (simp add: default_fields_def)

text \<open>
  Claim C4, as amended. For every non-empty list of overrides with unique names, where no
  name contains a colon or a comma and no definition contains a comma, the three shapes
  (the tokens joined by commas into one string, the list of tokens, and the mapping)
  resolve to the same schema, the defaults updated with the overrides, equal in order and
  content.
\<close>

theorem shapes_agree:
  assumes "pairs \<noteq> []"
      and "distinct (map fst pairs)"
      and "\<forall>p \<in> set pairs. CHR '':'' \<notin> set (fst p) \<and> CHR '','' \<notin> set (fst p) \<and>
             CHR '','' \<notin> set (snd p)"
  shows "resolve_fields (FStr (py_join CHR '','' (map token pairs))) =
           Inr (od_update default_fields pairs) \<and>
         resolve_fields (FSeq (map token pairs)) = Inr (od_update default_fields pairs) \<and>
         resolve_fields (FDict pairs) = Inr (od_update default_fields pairs)"
proof -
  have colon: "\<forall>p \<in> set pairs. CHR '':'' \<notin> set (fst p)"
    using assms(3) by blast
  have comma: "\<forall>t \<in> set (map token pairs). CHR '','' \<notin> set t"
    using assms(3) by (auto simp: token_def)
  have ne: "map token pairs \<noteq> []"
    using assms(1) by simp
  have split: "py_split CHR '','' (py_join CHR '','' (map token pairs)) = map token pairs"
    using py_split_join [OF ne comma] .
  have seq: "resolve_fields (FSeq (map token pairs)) = Inr (od_update default_fields pairs)"
    using set_definitions_tokens [OF colon] by (simp add: resolve_fields_def)
  have str: "resolve_fields (FStr (py_join CHR '','' (map token pairs))) =
      resolve_fields (FSeq (map token pairs))"
    using split by (simp add: resolve_fields_def)
  have dict: "resolve_fields (FDict pairs) = Inr (od_update default_fields pairs)"
    by (simp add: resolve_fields_def)
  show ?thesis using seq str dict by simp
qed

theorem shapes_agree_witness:
  "resolve_fields (FStr ''heading:int:3'') =
     Inr [(''mmsi'', ''int:30''), (''timestamp'', ''str:40''), (''course'', ''float:12.1''),
          (''speed'', ''float:10.1''), (''heading'', ''int:3'')] \<and>
   resolve_fields (FSeq [''heading:int:3'']) =
     Inr [(''mmsi'', ''int:30''), (''timestamp'', ''str:40''), (''course'', ''float:12.1''),
          (''speed'', ''float:10.1''), (''heading'', ''int:3'')] \<and>
   resolve_fields (FDict [(''heading'', ''int:3'')]) =
     Inr [(''mmsi'', ''int:30''), (''timestamp'', ''str:40''), (''course'', ''float:12.1''),
          (''speed'', ''float:10.1''), (''heading'', ''int:3'')]"
  using shapes_agree [of "[(''heading'', ''int:3'')]"]
  by (simp add: token_def default_fields_def)

text \<open>
  Claim C4 as stated, for every set of overrides, fails at the empty set: the list and the
  mapping with no override resolve to the defaults, but the string with no token is the
  empty string, which \<^verbatim>\<open>split\<close> turns into one empty token, and the resolution raises
  \<^verbatim>\<open>ValueError\<close>.
\<close>

theorem shapes_empty_counterexample:
  "resolve_fields (FStr (py_join CHR '','' (map token []))) = Inl ValueError \<and>
   resolve_fields (FSeq (map token [])) = Inr default_fields \<and>
   resolve_fields (FDict []) = Inr default_fields"
  by (simp add: resolve_fields_def py_split_def py_split1_def)

text \<open>
  Claim C7. When \<^verbatim>\<open>fields\<close> is a string or a list and one of its tokens (for a string,
  the pieces between commas) has no colon, the resolution raises \<^verbatim>\<open>ValueError\<close>, and
  construction fails with the trace of the library unchanged: no collection has been
  opened. The exception of construction is that \<^verbatim>\<open>ValueError\<close> when the destination is a
  string; a destination that is not a string has raised \<^verbatim>\<open>TypeError\<close> before the fields
  are looked at.
\<close>

theorem init_malformed_token:
  assumes "flds = FStr s \<and> toks = py_split CHR '','' s \<or> flds = FSeq toks"
      and "d \<in> set toks" and "CHR '':'' \<notin> set d"
  shows "resolve_fields flds = Inl ValueError \<and>
         Vector_init fio f mode drv ln c flds tr =
           (Inl (case f of Str path \<Rightarrow> ValueError | NonStr \<Rightarrow> TypeError), tr)"
proof -
  have "set_definitions default_fields toks = Inl ValueError"
    using set_definitions_malformed [OF assms(2) assms(3)] .
  then have r: "resolve_fields flds = Inl ValueError"
    using assms(1) by (auto simp: resolve_fields_def)
  show ?thesis using r by (cases f) (simp_all add: Vector_init_def)
qed

theorem init_malformed_token_witness:
  "Vector_init fio_ok (Str ''out.shp'') ''w'' ''ESRI Shapefile'' None (CrsStr ''EPSG:4326'')
     (FStr ''heading'') ([] :: int event list) = (Inl ValueError, []) \<and>
   Vector_init fio_ok (Str ''out.shp'') ''w'' ''ESRI Shapefile'' None (CrsStr ''EPSG:4326'')
     (FSeq [''mmsi:int:5'', ''heading'']) ([] :: int event list) = (Inl ValueError, [])"
proof -
  have a: "FStr ''heading'' = FStr ''heading'' \<and> [''heading''] = py_split CHR '','' ''heading''
      \<or> FStr ''heading'' = FSeq [''heading'']"
    by (simp add: py_split_def)
  have b: "FSeq [''mmsi:int:5'', ''heading''] = FStr [] \<and>
      [''mmsi:int:5'', ''heading''] = py_split CHR '','' []
      \<or> FSeq [''mmsi:int:5'', ''heading''] = FSeq [''mmsi:int:5'', ''heading'']"
    by simp
  have m1: "''heading'' \<in> set [''heading'']" by simp
  have m2: "''heading'' \<in> set [''mmsi:int:5'', ''heading'']" by simp
  have nc: "CHR '':'' \<notin> set ''heading''" by simp
  show ?thesis
    using init_malformed_token [OF a m1 nc, of "fio_ok :: int fio" "Str ''out.shp''" "''w''"
        "''ESRI Shapefile''" None "CrsStr ''EPSG:4326''" "[]"]
      init_malformed_token [OF b m2 nc, of "fio_ok :: int fio" "Str ''out.shp''" "''w''"
        "''ESRI Shapefile''" None "CrsStr ''EPSG:4326''" "[]"]
    by simp
qed

text \<open>
  Claim C1, as amended. A value of \<^verbatim>\<open>fields\<close> that is not a string, a list or tuple, a
  dictionary or \<^verbatim>\<open>None\<close> raises no error on its own account: it matches neither branch
  of the \<^verbatim>\<open>if\<close>/\<^verbatim>\<open>elif\<close>, the default schema is used, and construction behaves in
  every respect as with \<^verbatim>\<open>fields=None\<close>.
\<close>

theorem init_fields_other_ignored:
  "resolve_fields FOther = Inr default_fields \<and>
   Vector_init fio f mode drv ln c FOther tr = Vector_init fio f mode drv ln c FNone tr"
proof -
  have eq: "resolve_fields FOther = resolve_fields FNone"
    by (simp add: resolve_fields_def)
  have "resolve_fields FOther = Inr default_fields"
    by (simp add: resolve_fields_def)
  then show ?thesis unfolding Vector_init_def eq by simp
qed

text \<open>
  Claim C1 as stated, that such a value raises a type error before any stream is opened
  and never falls back to the default schema, fails: with a library in which no call
  fails, construction returns an instance and has opened the point collection with the
  default schema.
\<close>

theorem init_fields_other_counterexample:
  "Vector_init fio_ok (Str ''out.shp'') ''w'' ''ESRI Shapefile'' None (CrsStr ''EPSG:4326'')
     FOther ([] :: int event list) =
   (Inr (ex_vector None []), [Opened ''out.shp'' ''w'' ex_meta])"
  by (simp add: Vector_init_def resolve_fields_def fio_open_def fio_call_def fio_ok_def
      ex_vector_def ex_meta_def Let_def)

section \<open>Writing a message\<close>

text \<open>
  Claim C6. On an instance that construction returned (whatever its accumulator holds by
  now), a message whose \<^verbatim>\<open>lon\<close> and \<^verbatim>\<open>lat\<close> are both present and not \<^verbatim>\<open>None\<close> makes
  \<^verbatim>\<open>write\<close> pass exactly one feature to the point stream: its geometry is the point
  \<open>(lon, lat)\<close>, and its properties have one entry for every field name of the resolved
  schema, in the schema's order, with the message's value, or \<^verbatim>\<open>None\<close> when the message
  has none. If the library accepts the feature it is the one event added to the trace; if
  the library raises, \<^verbatim>\<open>write\<close> raises and nothing changes. A key of the message that is
  neither \<^verbatim>\<open>lon\<close>, \<^verbatim>\<open>lat\<close> nor a field name has no influence on the call.
\<close>

theorem write_point_feature:
  assumes "Vector_init fio (Str path) mode drv ln c flds tr0 = (Inr self0, tr1)"
      and "resolve_fields flds = Inr props"
      and "msg_get msg ''lon'' = Some x" and "msg_get msg ''lat'' = Some y"
      and "ft = \<lparr>geometry = Point (Some x, Some y),
                 properties = map (\<lambda>k. (k, msg_get msg k)) (map fst props)\<rparr>"
  shows "Vector_write fio (self0\<lparr>line_coords := cs\<rparr>) msg tr =
           (if fio tr (Wrote path ft)
            then (Raised FionaError, self0\<lparr>line_coords := cs\<rparr>, tr)
            else (Returned,
                  self0\<lparr>line_coords := (if truthy ln then cs @ [(Some x, Some y)] else cs)\<rparr>,
                  tr @ [Wrote path ft])) \<and>
         (k \<notin> set (map fst props) \<and> k \<noteq> ''lon'' \<and> k \<noteq> ''lat'' \<longrightarrow>
            Vector_write fio (self0\<lparr>line_coords := cs\<rparr>) (msg(k := v)) tr =
            Vector_write fio (self0\<lparr>line_coords := cs\<rparr>) msg tr)"
proof -
  note st = Vector_init_stream [OF assms(1) assms(2)]
  have pf: "point_feature (stream self0) msg = ft"
    using st assms(3,4,5) by (simp add: point_feature_def)
  have first: "Vector_write fio (self0\<lparr>line_coords := cs\<rparr>) msg tr =
           (if fio tr (Wrote path ft)
            then (Raised FionaError, self0\<lparr>line_coords := cs\<rparr>, tr)
            else (Returned,
                  self0\<lparr>line_coords := (if truthy ln then cs @ [(Some x, Some y)] else cs)\<rparr>,
                  tr @ [Wrote path ft]))"
    using st pf assms(3,4)
    by (simp add: Vector_write_def stream_write_def fio_call_def)
  have second: "k \<notin> set (map fst props) \<and> k \<noteq> ''lon'' \<and> k \<noteq> ''lat'' \<longrightarrow>
            Vector_write fio (self0\<lparr>line_coords := cs\<rparr>) (msg(k := v)) tr =
            Vector_write fio (self0\<lparr>line_coords := cs\<rparr>) msg tr"
    using st(2) by (auto intro!: Vector_write_upd_other)
  show ?thesis using first second by blast
qed

theorem write_point_feature_witness:
  "Vector_init fio_ok (Str ''out.shp'') ''w'' ''ESRI Shapefile'' None (CrsStr ''EPSG:4326'')
     FNone [] = (Inr (ex_vector None []), [Opened ''out.shp'' ''w'' ex_meta]) \<and>
   Vector_write fio_ok (ex_vector None [])
     [''lon'' \<mapsto> Some 1, ''lat'' \<mapsto> Some 2, ''heading'' \<mapsto> Some 90, ''name'' \<mapsto> Some 7]
     [Opened ''out.shp'' ''w'' ex_meta] =
   (Returned, ex_vector None [],
    [Opened ''out.shp'' ''w'' ex_meta,
     Wrote ''out.shp''
       \<lparr>geometry = Point (Some 1, Some 2),
        properties = [(''mmsi'', None), (''timestamp'', None), (''course'', None),
                      (''speed'', None), (''heading'', Some 90)]\<rparr>])"
proof -
  have i: "Vector_init fio_ok (Str ''out.shp'') ''w'' ''ESRI Shapefile'' None
      (CrsStr ''EPSG:4326'') FNone ([] :: int event list) =
      (Inr (ex_vector None []), [Opened ''out.shp'' ''w'' ex_meta])"
    by (simp add: Vector_init_def resolve_fields_def fio_open_def fio_call_def fio_ok_def
        ex_vector_def ex_meta_def Let_def)
  have r: "resolve_fields FNone = Inr default_fields"
    by (simp add: resolve_fields_def)
  let ?m = "[''lon'' \<mapsto> Some (1::int), ''lat'' \<mapsto> Some 2, ''heading'' \<mapsto> Some 90,
             ''name'' \<mapsto> Some 7]"
  have x: "msg_get ?m ''lon'' = Some 1" by (simp add: msg_get_def)
  have y: "msg_get ?m ''lat'' = Some 2" by (simp add: msg_get_def)
  from write_point_feature [OF i r x y refl, of "[]" "[Opened ''out.shp'' ''w'' ex_meta]"]
  show ?thesis using i
    by (simp add: default_fields_def msg_get_def fio_ok_def truthy_def ex_vector_def)
qed

text \<open>
  Claim C2, as amended. When \<^verbatim>\<open>lon\<close> or \<^verbatim>\<open>lat\<close> is missing or \<^verbatim>\<open>None\<close>, \<^verbatim>\<open>write\<close>
  returns without an exception and without any call to the library (the trace is
  unchanged), and when line-tracking is enabled the pair \<open>(lon, lat)\<close>, \<^verbatim>\<open>None\<close>
  included, is appended to the accumulator. In general a call to \<^verbatim>\<open>write\<close> raises
  exactly when both coordinates are present and the library refuses the point feature,
  and then nothing has changed; every other call returns, has written the point feature
  exactly when both coordinates are present, and with line-tracking enabled has appended
  exactly the one pair \<open>(lon, lat)\<close>, whether or not a point feature was written.
\<close>

theorem write_appends_iff_returns:
  "(msg_get msg ''lon'' = None \<or> msg_get msg ''lat'' = None \<longrightarrow>
      Vector_write fio self msg tr =
        (Returned,
         (if truthy (line self)
          then self\<lparr>line_coords :=
                 line_coords self @ [(msg_get msg ''lon'', msg_get msg ''lat'')]\<rparr>
          else self),
         tr)) \<and>
   Vector_write fio self msg tr =
     (if msg_get msg ''lon'' \<noteq> None \<and> msg_get msg ''lat'' \<noteq> None \<and>
         fio tr (Wrote (s_path (stream self)) (point_feature (stream self) msg))
      then (Raised FionaError, self, tr)
      else (Returned,
            (if truthy (line self)
             then self\<lparr>line_coords :=
                    line_coords self @ [(msg_get msg ''lon'', msg_get msg ''lat'')]\<rparr>
             else self),
            (if msg_get msg ''lon'' \<noteq> None \<and> msg_get msg ''lat'' \<noteq> None
             then tr @ [Wrote (s_path (stream self)) (point_feature (stream self) msg)]
             else tr)))"
  by (auto simp: Vector_write_def stream_write_def fio_call_def Let_def)

theorem write_appends_iff_returns_witness:
  "msg_get [''lat'' \<mapsto> Some (2::int)] ''lon'' = None \<and>
   Vector_write fio_ok (ex_vector (Some ''track.shp'') []) [''lat'' \<mapsto> Some 2] [] =
     (Returned, ex_vector (Some ''track.shp'') [(None, Some 2)], []) \<and>
   Vector_write fio_ok (ex_vector (Some ''track.shp'') [(None, Some 2)]) (ex_msg 3 4) [] =
     (Returned, ex_vector (Some ''track.shp'') [(None, Some 2), (Some 3, Some 4)],
      [Wrote ''out.shp'' (ex_point 3 4)])"
  using write_appends_iff_returns
    [of "[''lat'' \<mapsto> Some (2::int)]" fio_ok "ex_vector (Some ''track.shp'') []" "[]"]
    write_appends_iff_returns
    [of "ex_msg 3 4" fio_ok "ex_vector (Some ''track.shp'') [(None, Some 2)]" "[]"]
  by (simp add: msg_get_def truthy_def ex_vector_def ex_msg_def ex_point_def ex_meta_def
      default_fields_def point_feature_def fio_ok_def)

text \<open>
  Claim C2 as stated, that with line-tracking enabled every call to \<^verbatim>\<open>write\<close> appends
  one vertex, fails for a call whose point write raises: the exception leaves \<^verbatim>\<open>write\<close>
  before the append, and the accumulator is as it was.
\<close>

theorem write_raises_counterexample:
  "truthy (line (ex_vector (Some ''track.shp'') [])) \<and>
   Vector_write (fio_write_fails ''out.shp'') (ex_vector (Some ''track.shp'') [])
     (ex_msg 1 2) [] =
   (Raised FionaError, ex_vector (Some ''track.shp'') [], [])"
  by (simp add: Vector_write_def stream_write_def fio_call_def fio_write_fails_def
      msg_get_def ex_msg_def truthy_def ex_vector_def Let_def)

section \<open>Closing\<close>



text \<open>
  Claim C3, as amended. After any call to \<^verbatim>\<open>close\<close> that returns without an exception,
  the accumulator is empty, whether line-tracking was enabled or not, and nothing else of
  the instance has changed.
\<close>

theorem close_returned_resets:
  "Vector_close fio self tr = (Returned, self', tr') \<Longrightarrow> self' = self\<lparr>line_coords := []\<rparr>"
  by (auto simp: Vector_close_def split: prod.splits outcome.splits if_splits)

theorem close_returned_resets_witness:
  "Vector_close fio_ok (ex_vector None [(Some 0, Some 0)]) [] =
     (Returned, ex_vector None [], [Closed ''out.shp'']) \<and>
   line_coords (ex_vector None []) = []"
proof -
  have run: "Vector_close fio_ok (ex_vector None [(Some 0, Some 0)]) [] =
     (Returned, ex_vector None [], [Closed ''out.shp''])"
    by (simp add: Vector_close_def stream_close_def fio_call_def fio_ok_def truthy_def
        ex_vector_def)
  from close_returned_resets [OF run] show ?thesis using run by (simp add: ex_vector_def)
qed

text \<open>
  Claim C3 as stated includes the case in which the line write inside \<^verbatim>\<open>close\<close> fails.
  There it does not hold: the exception leaves \<^verbatim>\<open>close\<close> before the last statement, and
  the accumulator keeps its coordinates.
\<close>

theorem close_write_fails_counterexample:
  "Vector_close (fio_write_fails ''track.shp'')
     (ex_vector (Some ''track.shp'') [(Some 0, Some 0)]) [] =
   (Raised FionaError, ex_vector (Some ''track.shp'') [(Some 0, Some 0)],
    [Closed ''out.shp'',
     Opened ''track.shp'' ''w''
       (ex_meta\<lparr>schema_properties := [], schema_geometry := ''LineString''\<rparr>),
     Closed ''track.shp''])"
  by (simp add: Vector_close_def write_line_def stream_close_def stream_write_def
      fio_open_def fio_call_def fio_write_fails_def truthy_def ex_vector_def)

text \<open>
  Claim C10. An instance whose line destination is the empty string behaves as the same
  instance without line destination: \<^verbatim>\<open>write\<close> and \<^verbatim>\<open>close\<close> give the same outcome,
  the same trace and, up to the stored line value itself, the same instance. In
  particular \<^verbatim>\<open>write\<close> leaves the accumulator as it is, and \<^verbatim>\<open>close\<close> makes no call
  to the library beyond closing the point stream: no line collection is opened.
\<close>

theorem empty_line_inert:
  "Vector_write fio (self\<lparr>line := Some []\<rparr>) msg tr =
     (case Vector_write fio (self\<lparr>line := None\<rparr>) msg tr of
        (oc, s, t) \<Rightarrow> (oc, s\<lparr>line := Some []\<rparr>, t)) \<and>
   Vector_close fio (self\<lparr>line := Some []\<rparr>) tr =
     (case Vector_close fio (self\<lparr>line := None\<rparr>) tr of
        (oc, s, t) \<Rightarrow> (oc, s\<lparr>line := Some []\<rparr>, t)) \<and>
   line_coords (fst (snd (Vector_write fio (self\<lparr>line := Some []\<rparr>) msg tr))) =
     line_coords self \<and>
   snd (snd (Vector_close fio (self\<lparr>line := Some []\<rparr>) tr)) =
     (if fio tr (Closed (s_path (stream self))) then tr
      else tr @ [Closed (s_path (stream self))])"
  by (simp add: Vector_write_def Vector_close_def stream_write_def stream_close_def
      fio_call_def truthy_def Let_def)

end
